theory Spec2Isabelle
  imports Complex_Main "HOL-Library.Word"
begin

section \<open>FlexiBlur: region blur and batch dispatch\<close>

text \<open>
  A shallow embedding of \<^verbatim>\<open>FlexiBlur.py\<close> (\<^verbatim>\<open>apply_blur\<close>, \<^verbatim>\<open>process_image\<close>,
  \<^verbatim>\<open>process_video\<close>, \<^verbatim>\<open>process_media_in_parallel\<close>, the decorator
  \<^verbatim>\<open>handle_exceptions\<close>) and of \<^verbatim>\<open>FlexiBlurApp.save_custom_blur_settings\<close> of
  \<^verbatim>\<open>gui.py\<close>.

  NumPy arrays are mutable objects that the code shares and updates in place, so they live
  in an explicit heap and are passed by address. Python exceptions are values of the type
  \<open>exn\<close>; \<^verbatim>\<open>None\<close> is \<open>None\<close>. Only the \<^verbatim>\<open>logging.error\<close> records are kept in
  the log; the debug and info lines have no influence on any result.
\<close>

subsection \<open>Frames\<close>

type_synonym byte = "8 word"

text \<open>A pixel holds the three 8-bit channels in the order the array stores them.\<close>

type_synonym pixel = "byte \<times> byte \<times> byte"

text \<open>A frame is the content of a height x width x 3 array: the list of its rows.\<close>

type_synonym frame = "pixel list list"

definition shape0 :: "frame \<Rightarrow> nat" where
  "shape0 f = length f"

definition shape1 :: "frame \<Rightarrow> nat" where
  "shape1 f = (case f of [] \<Rightarrow> 0 | r # _ \<Rightarrow> length r)"

text \<open>Every array is rectangular: all rows have the width of the first.\<close>

definition rect :: "frame \<Rightarrow> bool" where
  "rect f = list_all (\<lambda>r. length r = shape1 f) f"

text \<open>\<open>has_shape f h w\<close>: the array has exactly \<open>h\<close> rows of \<open>w\<close> pixels.\<close>

definition has_shape :: "frame \<Rightarrow> nat \<Rightarrow> nat \<Rightarrow> bool" where
  "has_shape f h w = (length f = h \<and> list_all (\<lambda>r. length r = w) f)"

subsection \<open>Python values, exceptions, settings\<close>

datatype pyval = PyInt int | PyFloat real | PyStr string

datatype exn =
    TypeError | KeyError | UnboundLocalError | ValueError | AttributeError
  | IOError | cv2_error | PIL_error

text \<open>\<^verbatim>\<open>custom_settings\<close> is a dict from option names to values.\<close>

type_synonym settings = "string \<rightharpoonup> pyval"

text \<open>\<^verbatim>\<open>custom_settings[k]\<close>: a missing key raises \<^verbatim>\<open>KeyError\<close>.\<close>

definition getitem :: "settings \<Rightarrow> string \<Rightarrow> exn + pyval" where
  "getitem cs k = (case cs k of None \<Rightarrow> Inl KeyError | Some v \<Rightarrow> Inr v)"

text \<open>A region of interest \<^verbatim>\<open>(x, y, w, h)\<close>; \<^verbatim>\<open>None\<close> stands for the whole frame.\<close>

type_synonym roi = "int \<times> int \<times> int \<times> int"

subsection \<open>Media files\<close>

text \<open>
  The codec boundary. A video file holds its frames at a constant rate and possibly an
  audio track; an audio clip is a stretch of the source's track, from an offset, of a
  duration. Times are Python floats, idealised as reals.
\<close>

record audio_clip =
  a_start :: real
  a_duration :: real

record video_file =
  v_fps :: real
  v_frames :: "frame list"
  v_audio :: "audio_clip option"

datatype media = Image frame | Video video_file

subsection \<open>OpenCV, Pillow and ffmpeg\<close>

text \<open>
  What the libraries compute in floating point, or read from a container, is a parameter
  of the model. \<open>gauss_core\<close> is the smoothing of \<^verbatim>\<open>cv2.GaussianBlur\<close> for kernel
  sizes that have passed its checks, \<open>pil_gaussian\<close> is
  \<^verbatim>\<open>Image.filter(ImageFilter.GaussianBlur(radius))\<close> on an RGB array, and
  \<open>ffmpeg_duration\<close> is the duration that ffmpeg reports for a video file, which moviepy
  takes as \<^verbatim>\<open>clip.duration\<close>; it need not be the number of frames over the rate.
\<close>

record lib =
  gauss_core :: "frame \<Rightarrow> int \<times> int \<Rightarrow> pyval \<Rightarrow> exn + frame"
  pil_gaussian :: "frame \<Rightarrow> pyval \<Rightarrow> exn + frame"
  ffmpeg_duration :: "video_file \<Rightarrow> real"

text \<open>
  \<^verbatim>\<open>cv2.GaussianBlur(src, (kw, kh), sigma)\<close>, after OpenCV's \<^verbatim>\<open>GaussianBlur\<close> and
  \<^verbatim>\<open>createGaussianKernels\<close>. The kernel sizes must be integers and sigma a number. Along
  an image dimension of one pixel the kernel size is set to 1, and the kernel (1, 1) copies
  the source. A size that is not positive is derived from sigma when sigma is positive (the
  derived size is positive and odd). After that both sizes must be positive and odd, or the
  assertion fails and \<^verbatim>\<open>cv2.error\<close> is raised.
\<close>

definition numeric :: "pyval \<Rightarrow> bool" where
  "numeric v = (case v of PyStr _ \<Rightarrow> False | _ \<Rightarrow> True)"

definition py_positive :: "pyval \<Rightarrow> bool" where
  "py_positive v = (case v of PyInt k \<Rightarrow> 0 < k | PyFloat x \<Rightarrow> 0 < x | PyStr _ \<Rightarrow> False)"

definition ksize_ok :: "int \<Rightarrow> pyval \<Rightarrow> bool" where
  "ksize_ok k sigma = ((0 < k \<and> k mod 2 = 1) \<or> (k \<le> 0 \<and> py_positive sigma))"

definition GaussianBlur :: "lib \<Rightarrow> frame \<Rightarrow> pyval \<times> pyval \<Rightarrow> pyval \<Rightarrow> exn + frame" where
  "GaussianBlur L src ksize sigma =
     (case ksize of
        (PyInt kw, PyInt kh) \<Rightarrow>
          if \<not> numeric sigma then Inl TypeError
          else if shape0 src = 0 \<or> shape1 src = 0 then Inl cv2_error
          else if (shape1 src = 1 \<or> kw = 1) \<and> (shape0 src = 1 \<or> kh = 1) then Inr src
          else if ksize_ok (if shape1 src = 1 then 1 else kw) sigma
                  \<and> ksize_ok (if shape0 src = 1 then 1 else kh) sigma
          then gauss_core L src (if shape1 src = 1 then 1 else kw, if shape0 src = 1 then 1 else kh) sigma
          else Inl cv2_error
      | _ \<Rightarrow> Inl TypeError)"

text \<open>
  \<^verbatim>\<open>cv2.filter2D(src, -1, kernel)\<close>, after OpenCV's documentation: the correlation
  \<open>dst(x, y) = \<Sum> kernel(x', y') * src(x + x' - anchor.x, y + y' - anchor.y)\<close> with the
  anchor at the kernel centre, pixels outside the image taken by \<^verbatim>\<open>BORDER_REFLECT_101\<close>,
  each channel on its own, and the sum saturated to the 8-bit range. The kernels built by
  \<^verbatim>\<open>apply_blur\<close> hold the floats 0.0 and 1.0 only, so all sums are exact integers and the
  kernel is a matrix of integers here.
\<close>

type_synonym kernel = "int list list"

definition reflect101 :: "int \<Rightarrow> nat \<Rightarrow> nat" where
  "reflect101 p n =
     (if n \<le> 1 then 0
      else let m = 2 * (int n - 1); q = p mod m
           in nat (if q < int n then q else m - q))"

definition saturate :: "int \<Rightarrow> byte" where
  "saturate v = (if v < 0 then 0 else if 255 < v then 255 else word_of_int v)"

definition chan0 :: "pixel \<Rightarrow> byte" where "chan0 p = fst p"
definition chan1 :: "pixel \<Rightarrow> byte" where "chan1 p = fst (snd p)"
definition chan2 :: "pixel \<Rightarrow> byte" where "chan2 p = snd (snd p)"

text \<open>The kernel entry at row \<open>i\<close>, column \<open>j\<close> times the source pixel it lies over.\<close>

definition tap :: "(pixel \<Rightarrow> byte) \<Rightarrow> frame \<Rightarrow> kernel \<Rightarrow> nat \<Rightarrow> nat \<Rightarrow> nat \<Rightarrow> nat \<Rightarrow> int" where
  "tap c src k y x i j =
     (k ! i ! j) *
     uint (c (src ! reflect101 (int y + int i - int (length k div 2)) (shape0 src)
                  ! reflect101 (int x + int j - int (length (hd k) div 2)) (shape1 src)))"

definition correlate :: "(pixel \<Rightarrow> byte) \<Rightarrow> frame \<Rightarrow> kernel \<Rightarrow> nat \<Rightarrow> nat \<Rightarrow> int" where
  "correlate c src k y x =
     sum_list (map (\<lambda>i. sum_list (map (\<lambda>j. tap c src k y x i j) [0..<length (hd k)]))
                   [0..<length k])"

definition filter2D :: "frame \<Rightarrow> kernel \<Rightarrow> exn + frame" where
  "filter2D src k =
     (if shape0 src = 0 \<or> shape1 src = 0 \<or> k = [] \<or> hd k = [] then Inl cv2_error
      else Inr (map (\<lambda>y. map (\<lambda>x. (saturate (correlate chan0 src k y x),
                                      saturate (correlate chan1 src k y x),
                                      saturate (correlate chan2 src k y x)))
                              [0..<shape1 src])
                    [0..<shape0 src]))"

text \<open>\<^verbatim>\<open>cv2.cvtColor\<close> with \<^verbatim>\<open>COLOR_BGR2RGB\<close> or \<^verbatim>\<open>COLOR_RGB2BGR\<close>: both swap the outer channels.\<close>

definition cvtColor_swap :: "frame \<Rightarrow> frame" where
  "cvtColor_swap f = map (map (\<lambda>p. (chan2 p, chan1 p, chan0 p))) f"

subsection \<open>The heap of arrays and the error log\<close>

record ndarray =
  writeable :: bool
  pixels :: frame

type_synonym addr = nat

datatype log_error =
    InputImageEmpty
  | InvalidROI
  | UnknownBlurMode string
  | ErrorApplyingBlur exn
  | ErrorProcessing exn
  | ProcessingFailedForImage string
  | ErrorWritingVideo exn

subsection \<open>The program state\<close>

text \<open>
  What a write to a path does: it succeeds, it cannot be done (missing directory,
  permissions), or no encoder exists for the extension.
\<close>

datatype wstatus = Writable | Unwritable | Unsupported

record state =
  heap :: "ndarray list"
  errlog :: "log_error list"
  files :: "string \<rightharpoonup> media"
  write_status :: "string \<Rightarrow> wstatus"

definition logging_error :: "log_error \<Rightarrow> state \<Rightarrow> state" where
  "logging_error e st = st\<lparr>errlog := errlog st @ [e]\<rparr>"

text \<open>A new array (\<^verbatim>\<open>.copy()\<close>, a filter's result, \<^verbatim>\<open>cv2.imread\<close>) is writeable.\<close>

definition alloc :: "frame \<Rightarrow> state \<Rightarrow> addr \<times> state" where
  "alloc f st = (length (heap st), st\<lparr>heap := heap st @ [\<lparr>writeable = True, pixels = f\<rparr>]\<rparr>)"

subsection \<open>The decorator \<^verbatim>\<open>handle_exceptions\<close>\<close>

text \<open>
  An exception that leaves the decorated function is logged and becomes \<^verbatim>\<open>None\<close>
  (lines 27-42). The effects the function had before it raised stay.
\<close>

definition handle_exceptions ::
  "(state \<Rightarrow> (exn + 'a option) \<times> state) \<Rightarrow> state \<Rightarrow> 'a option \<times> state" where
  "handle_exceptions func st =
     (case func st of
        (Inl e, st') \<Rightarrow> (None, logging_error (ErrorProcessing e) st')
      | (Inr result, st') \<Rightarrow> (result, st'))"

subsection \<open>\<^verbatim>\<open>apply_blur\<close>\<close>

text \<open>The bounds check of lines 58-65.\<close>

definition roi_invalid :: "frame \<Rightarrow> roi \<Rightarrow> bool" where
  "roi_invalid img r =
     (case r of (x, y, w, h) \<Rightarrow>
        x < 0 \<or> y < 0 \<or> w \<le> 0 \<or> h \<le> 0 \<or> x + w > int (shape1 img) \<or> y + h > int (shape0 img))"

text \<open>
  The slice \<^verbatim>\<open>image[y : y + h, x : x + w]\<close>, read only after the bounds check has passed,
  so that no index is negative or past the end.
\<close>

definition crop :: "frame \<Rightarrow> roi \<Rightarrow> frame" where
  "crop img r =
     (case r of (x, y, w, h) \<Rightarrow>
        map (\<lambda>row. take (nat w) (drop (nat x) row)) (take (nat h) (drop (nat y) img)))"

text \<open>
  Lines 56-73: \<^verbatim>\<open>roi_section\<close>, a copy of the region or of the whole image; \<open>None\<close> when
  the region fails the bounds check and \<^verbatim>\<open>apply_blur\<close> returns early.
\<close>

definition roi_section :: "frame \<Rightarrow> roi option \<Rightarrow> frame option" where
  "roi_section img roi =
     (case roi of
        None \<Rightarrow> Some img
      | Some r \<Rightarrow> if roi_invalid img r then None else Some (crop img r))"

text \<open>
  Lines 87-92: the kernel of ones, one row of 15 or one column of 15. For any other
  direction neither branch runs and the name \<^verbatim>\<open>kernel\<close> stays unbound.
\<close>

definition motion_kernel :: "pyval \<Rightarrow> kernel option" where
  "motion_kernel direction =
     (if direction = PyStr ''horizontal'' then Some [replicate 15 1]
      else if direction = PyStr ''vertical'' then Some (replicate 15 [1])
      else None)"

text \<open>
  Lines 77-101, the choice of the filter: \<open>Inl e\<close> when a step raises, \<open>Inr None\<close> for
  an unknown mode (the \<^verbatim>\<open>return None\<close> of line 101), \<open>Inr (Some b)\<close> for
  \<^verbatim>\<open>blurred_roi\<close>.
\<close>

definition blur_roi :: "lib \<Rightarrow> frame \<Rightarrow> string \<Rightarrow> settings \<Rightarrow> exn + frame option" where
  "blur_roi L sect blur_mode cs =
     (if blur_mode = ''Heavy'' then
        map_sum id Some (GaussianBlur L sect (PyInt 51, PyInt 51) (PyInt 0))
      else if blur_mode = ''Slight'' then
        map_sum id Some (GaussianBlur L sect (PyInt 15, PyInt 15) (PyInt 0))
      else if blur_mode = ''Custom'' then
        (case getitem cs ''ksize'' of
           Inl e \<Rightarrow> Inl e
         | Inr ksize \<Rightarrow>
             (case getitem cs ''sigma'' of
                Inl e \<Rightarrow> Inl e
              | Inr sigma \<Rightarrow> map_sum id Some (GaussianBlur L sect (ksize, ksize) sigma)))
      else if blur_mode = ''Motion'' then
        (case getitem cs ''direction'' of
           Inl e \<Rightarrow> Inl e
         | Inr direction \<Rightarrow>
             (case motion_kernel direction of
                None \<Rightarrow> Inl UnboundLocalError
              | Some k \<Rightarrow> map_sum id Some (filter2D sect k)))
      else if blur_mode = ''Radial'' then
        (case getitem cs ''angle'' of
           Inl e \<Rightarrow> Inl e
         | Inr angle \<Rightarrow>
             (case pil_gaussian L (cvtColor_swap sect) angle of
                Inl e \<Rightarrow> Inl e
              | Inr b \<Rightarrow> Inr (Some (cvtColor_swap b))))
      else Inr None)"

text \<open>The rows \<open>y..<y+h\<close> of the image with their columns \<open>x..<x+w\<close> replaced.\<close>

definition paste :: "frame \<Rightarrow> roi \<Rightarrow> frame \<Rightarrow> frame" where
  "paste img r b =
     (case r of (x, y, w, h) \<Rightarrow>
        take (nat y) img
        @ map (\<lambda>(row, brow). take (nat x) row @ brow @ drop (nat (x + w)) row)
              (zip (take (nat h) (drop (nat y) img)) b)
        @ drop (nat (y + h)) img)"

text \<open>
  Line 105, \<^verbatim>\<open>image[y : y + h, x : x + w] = blurred_roi\<close>: the array at address \<open>a\<close> is
  overwritten in place. NumPy raises \<^verbatim>\<open>ValueError\<close> when the array is read-only or the
  shapes do not fit. (The filters return an array of their source's shape, so NumPy's
  broadcasting of a smaller array never happens here.)
\<close>

definition setitem_roi :: "addr \<Rightarrow> roi \<Rightarrow> frame \<Rightarrow> state \<Rightarrow> exn + state" where
  "setitem_roi a r b st =
     (case r of (x, y, w, h) \<Rightarrow>
        if \<not> writeable (heap st ! a) then Inl ValueError
        else if \<not> has_shape b (nat h) (nat w) then Inl ValueError
        else Inr (st\<lparr>heap := (heap st)[a := (heap st ! a)\<lparr>pixels := paste (pixels (heap st ! a)) r b\<rparr>]\<rparr>))"

text \<open>
  Lines 103-107: with a region the caller's array is updated and returned; without one
  the name \<^verbatim>\<open>image\<close> is rebound to the new array \<^verbatim>\<open>blurred_roi\<close>.
\<close>

definition update_image :: "addr \<Rightarrow> roi option \<Rightarrow> frame \<Rightarrow> state \<Rightarrow> exn + addr \<times> state" where
  "update_image a roi b st =
     (case roi of
        Some r \<Rightarrow> (case setitem_roi a r b st of Inl e \<Rightarrow> Inl e | Inr st' \<Rightarrow> Inr (a, st'))
      | None \<Rightarrow> Inr (alloc b st))"

text \<open>
  The body of \<^verbatim>\<open>apply_blur\<close> (lines 46-112). \<open>img\<close> is the address of the array the
  caller passes as \<^verbatim>\<open>image\<close>, or \<open>None\<close>. Everything from line 75 on is inside \<^verbatim>\<open>try\<close>; its
  \<^verbatim>\<open>except Exception\<close> logs and returns \<^verbatim>\<open>None\<close>.
\<close>

definition apply_blur_body ::
  "lib \<Rightarrow> addr option \<Rightarrow> roi option \<Rightarrow> string \<Rightarrow> settings \<Rightarrow> state
     \<Rightarrow> (exn + addr option) \<times> state" where
  "apply_blur_body L img roi blur_mode cs st =
     (case img of
        None \<Rightarrow> (Inr None, logging_error InputImageEmpty st)
      | Some a \<Rightarrow>
          (case roi_section (pixels (heap st ! a)) roi of
             None \<Rightarrow> (Inr (Some a), logging_error InvalidROI st)
           | Some sect \<Rightarrow>
               (case blur_roi L sect blur_mode cs of
                  Inl e \<Rightarrow> (Inr None, logging_error (ErrorApplyingBlur e) st)
                | Inr None \<Rightarrow> (Inr None, logging_error (UnknownBlurMode blur_mode) st)
                | Inr (Some b) \<Rightarrow>
                    (case update_image a roi b st of
                       Inl e \<Rightarrow> (Inr None, logging_error (ErrorApplyingBlur e) st)
                     | Inr (r, st') \<Rightarrow> (Inr (Some r), st')))))"

definition apply_blur ::
  "lib \<Rightarrow> addr option \<Rightarrow> roi option \<Rightarrow> string \<Rightarrow> settings \<Rightarrow> state \<Rightarrow> addr option \<times> state" where
  "apply_blur L img roi blur_mode cs = handle_exceptions (apply_blur_body L img roi blur_mode cs)"

text \<open>
  The invariant of a validated region in the words of the specification:
  \<open>0 \<le> x\<close>, \<open>0 \<le> y\<close>, \<open>width > 0\<close>, \<open>height > 0\<close>, \<open>x + width \<le> frame.width\<close>,
  \<open>y + height \<le> frame.height\<close>.
\<close>

definition within_bounds :: "frame \<Rightarrow> roi \<Rightarrow> bool" where
  "within_bounds f r =
     (case r of (x, y, w, h) \<Rightarrow>
        0 \<le> x \<and> 0 \<le> y \<and> 0 < w \<and> 0 < h \<and> x + w \<le> int (shape1 f) \<and> y + h \<le> int (shape0 f))"

subsection \<open>\<^verbatim>\<open>FlexiBlurApp.save_custom_blur_settings\<close> (gui.py, lines 318-328)\<close>


subsection \<open>Calls with positional arguments\<close>

text \<open>
  \<^verbatim>\<open>executor.submit(fn, path, roi, blur_mode, custom_settings, start_time, end_time)\<close>
  calls \<^verbatim>\<open>fn\<close> with six positional arguments. The decorated functions are
  \<^verbatim>\<open>wrapper(*args, **kwargs)\<close>, which passes the arguments on inside its \<^verbatim>\<open>try\<close>;
  Python raises \<^verbatim>\<open>TypeError\<close> there when their number is not the number of
  parameters of the decorated function.
\<close>

datatype arg =
    PathArg string
  | RoiArg "roi option"
  | ModeArg string
  | SettingsArg settings
  | StartArg real
  | EndArg "real option"

subsection \<open>\<^verbatim>\<open>process_image\<close>\<close>

text \<open>\<^verbatim>\<open>cv2.imread\<close>: a new array, or \<^verbatim>\<open>None\<close> when the file is missing or no image.\<close>

definition imread :: "string \<Rightarrow> state \<Rightarrow> addr option \<times> state" where
  "imread path st =
     (case files st path of
        Some (Image f) \<Rightarrow> (Some (fst (alloc f st)), snd (alloc f st))
      | _ \<Rightarrow> (None, st))"

text \<open>
  \<^verbatim>\<open>cv2.imwrite\<close>: returns \<^verbatim>\<open>False\<close> (ignored by the caller) when the file cannot be
  written, and raises when it has no encoder for the extension.
\<close>

definition imwrite :: "string \<Rightarrow> frame \<Rightarrow> state \<Rightarrow> exn + state" where
  "imwrite path f st =
     (case write_status st path of
        Writable \<Rightarrow> Inr (st\<lparr>files := (files st)(path \<mapsto> Image f)\<rparr>)
      | Unwritable \<Rightarrow> Inr st
      | Unsupported \<Rightarrow> Inl cv2_error)"

text \<open>The body of \<^verbatim>\<open>process_image\<close> (lines 116-132), four parameters.\<close>

definition process_image_body ::
  "lib \<Rightarrow> string \<Rightarrow> roi option \<Rightarrow> string \<Rightarrow> settings \<Rightarrow> state \<Rightarrow> (exn + string option) \<times> state" where
  "process_image_body L path roi blur_mode cs st =
     (case apply_blur L (fst (imread path st)) roi blur_mode cs (snd (imread path st)) of
        (None, st2) \<Rightarrow> (Inr None, logging_error (ProcessingFailedForImage path) st2)
      | (Some r, st2) \<Rightarrow>
          (case imwrite path (pixels (heap st2 ! r)) st2 of
             Inl e \<Rightarrow> (Inl e, st2)
           | Inr st3 \<Rightarrow> (Inr (Some path), st3)))"

definition bind_process_image :: "arg list \<Rightarrow> (string \<times> roi option \<times> string \<times> settings) option" where
  "bind_process_image args =
     (case args of
        [PathArg path, RoiArg roi, ModeArg blur_mode, SettingsArg cs] \<Rightarrow>
          Some (path, roi, blur_mode, cs)
      | _ \<Rightarrow> None)"

text \<open>The decorated \<^verbatim>\<open>process_image\<close>, as a callable on positional arguments.\<close>

definition process_image :: "lib \<Rightarrow> arg list \<Rightarrow> state \<Rightarrow> string option \<times> state" where
  "process_image L args =
     handle_exceptions (\<lambda>st.
       case bind_process_image args of
         None \<Rightarrow> (Inl TypeError, st)
       | Some (path, roi, blur_mode, cs) \<Rightarrow> process_image_body L path roi blur_mode cs st)"

subsection \<open>Clips (moviepy)\<close>

text \<open>
  A clip has a duration, a frame rate, a function from times to frames and possibly an
  audio clip. \<open>make_frame c t = None\<close>: the frame function yields no array at \<open>t\<close>
  (\<^verbatim>\<open>blur_region\<close> returned \<^verbatim>\<open>None\<close>), and whatever uses the frame raises.
\<close>

record clip =
  duration :: real
  fps :: real
  make_frame :: "real \<Rightarrow> frame option"
  audio :: "audio_clip option"

text \<open>
  \<^verbatim>\<open>VideoFileClip(path)\<close>: frame \<open>k\<close> of the file is shown from time \<open>k / fps\<close> on; a
  time past the end gives the last frame. The duration of the clip is the one ffmpeg
  reports. Opening raises when the file is missing or no video.
\<close>

definition frame_at :: "video_file \<Rightarrow> real \<Rightarrow> frame option" where
  "frame_at v t = Some (v_frames v ! min (length (v_frames v) - 1) (nat \<lfloor>t * v_fps v\<rfloor>))"

definition VideoFileClip :: "lib \<Rightarrow> string \<Rightarrow> state \<Rightarrow> exn + clip" where
  "VideoFileClip L path st =
     (case files st path of
        Some (Video v) \<Rightarrow>
          if v_frames v = [] \<or> v_fps v \<le> 0 then Inl IOError
          else Inr \<lparr>duration = ffmpeg_duration L v, fps = v_fps v,
                    make_frame = frame_at v, audio = v_audio v\<rparr>
      | _ \<Rightarrow> Inl IOError)"

text \<open>
  \<^verbatim>\<open>subclip(t_start, t_end)\<close> of moviepy 1.x: a negative time counts from the end, a start
  past the end raises \<^verbatim>\<open>ValueError\<close>, the new clip shows the old one from \<open>t_start\<close> on
  and lasts \<open>t_end - t_start\<close>. On a video clip it is applied to the audio as well.
\<close>

definition audio_subclip :: "audio_clip \<Rightarrow> real \<Rightarrow> real \<Rightarrow> exn + audio_clip" where
  "audio_subclip au t_start t_end =
     (let ts = (if t_start < 0 then a_duration au + t_start else t_start);
          te = (if t_end < 0 then a_duration au + t_end else t_end)
      in if a_duration au < ts then Inl ValueError
         else Inr \<lparr>a_start = a_start au + ts, a_duration = te - ts\<rparr>)"

definition subclip :: "clip \<Rightarrow> real \<Rightarrow> real \<Rightarrow> exn + clip" where
  "subclip c t_start t_end =
     (let ts = (if t_start < 0 then duration c + t_start else t_start);
          te = (if t_end < 0 then duration c + t_end else t_end)
      in if duration c < ts then Inl ValueError
         else (case audio c of
                 None \<Rightarrow> Inr (c\<lparr>duration := te - ts, make_frame := (\<lambda>t. make_frame c (t + ts))\<rparr>)
               | Some au \<Rightarrow>
                   (case audio_subclip au t_start t_end of
                      Inl e \<Rightarrow> Inl e
                    | Inr au' \<Rightarrow>
                        Inr (c\<lparr>duration := te - ts, make_frame := (\<lambda>t. make_frame c (t + ts)),
                               audio := Some au'\<rparr>))))"

text \<open>
  \<^verbatim>\<open>fl_image(f)\<close>: every frame goes through \<open>f\<close>. The new clip reads the shape of its
  frame at time 0 at once, which raises \<^verbatim>\<open>AttributeError\<close> when \<open>f\<close> gave \<^verbatim>\<open>None\<close>.
\<close>

definition fl_image :: "(frame \<Rightarrow> frame option) \<Rightarrow> clip \<Rightarrow> exn + clip" where
  "fl_image f c =
     (case Option.bind (make_frame c 0) f of
        None \<Rightarrow> Inl AttributeError
      | Some _ \<Rightarrow> Inr (c\<lparr>make_frame := (\<lambda>t. Option.bind (make_frame c t) f)\<rparr>))"

text \<open>
  \<^verbatim>\<open>write_videofile\<close> renders the frames at the times \<open>0, 1/fps, 2/fps, ...\<close> below the
  duration. It raises when the file cannot be written or a frame cannot be rendered; what
  it leaves on disk then is not modelled.
\<close>

definition rendered_frames :: "clip \<Rightarrow> frame option list" where
  "rendered_frames c = map (\<lambda>k. make_frame c (real k / fps c)) [0..<nat \<lceil>duration c * fps c\<rceil>]"

definition write_videofile :: "string \<Rightarrow> clip \<Rightarrow> state \<Rightarrow> exn + state" where
  "write_videofile path c st =
     (if write_status st path \<noteq> Writable then Inl IOError
      else if list_ex (\<lambda>f. f = None) (rendered_frames c) then Inl AttributeError
      else Inr (st\<lparr>files := (files st)(path \<mapsto>
                  Video \<lparr>v_fps = fps c, v_frames = map the (rendered_frames c), v_audio = audio c\<rparr>)\<rparr>))"

subsection \<open>Paths and configuration\<close>

text \<open>\<^verbatim>\<open>config["output"]["directory"]\<close> (line 23).\<close>

definition output_directory :: string where
  "output_directory = ''output/''"

text \<open>\<^verbatim>\<open>os.path.basename\<close> and \<^verbatim>\<open>os.path.join\<close> of two parts, as on POSIX.\<close>

definition basename :: "string \<Rightarrow> string" where
  "basename p = rev (takeWhile (\<lambda>c. c \<noteq> CHR ''/'') (rev p))"

definition path_join :: "string \<Rightarrow> string \<Rightarrow> string" where
  "path_join a b =
     (if b \<noteq> [] \<and> hd b = CHR ''/'' then b
      else if a = [] \<or> last a = CHR ''/'' then a @ b
      else a @ ''/'' @ b)"

text \<open>\<^verbatim>\<open>str.lower\<close> on ASCII letters, and \<^verbatim>\<open>str.endswith\<close>.\<close>

definition lower_char :: "char \<Rightarrow> char" where
  "lower_char c =
     (if 65 \<le> (of_char c :: nat) \<and> (of_char c :: nat) \<le> 90 then char_of ((of_char c :: nat) + 32) else c)"

definition lower :: "string \<Rightarrow> string" where
  "lower s = map lower_char s"

definition endswith :: "string \<Rightarrow> string \<Rightarrow> bool" where
  "endswith s suffix = (length suffix \<le> length s \<and> drop (length s - length suffix) s = suffix)"

subsection \<open>\<^verbatim>\<open>process_video\<close>\<close>

text \<open>
  \<^verbatim>\<open>blur_region\<close> (lines 142-148): \<^verbatim>\<open>apply_blur\<close> on a copy of the frame. The copy is the
  only array the call can reach, so it runs on a heap of its own. The log records written
  while frames are rendered are not kept.
\<close>

definition frame_state :: "frame \<Rightarrow> state" where
  "frame_state fr =
     \<lparr>heap = [\<lparr>writeable = True, pixels = fr\<rparr>], errlog = [], files = Map.empty,
      write_status = (\<lambda>_. Writable)\<rparr>"

definition blur_region :: "lib \<Rightarrow> roi option \<Rightarrow> string \<Rightarrow> settings \<Rightarrow> frame \<Rightarrow> frame option" where
  "blur_region L roi blur_mode cs fr =
     (case apply_blur L (Some 0) roi blur_mode cs (frame_state fr) of
        (None, st') \<Rightarrow> None
      | (Some r, st') \<Rightarrow> Some (pixels (heap st' ! r)))"

text \<open>Lines 151-162: the default of \<^verbatim>\<open>end_time\<close> and the choice of the window.\<close>

definition default_end_time :: "clip \<Rightarrow> real option \<Rightarrow> real" where
  "default_end_time c end_time = (case end_time of None \<Rightarrow> duration c | Some e \<Rightarrow> e)"

definition blurred_clip :: "(frame \<Rightarrow> frame option) \<Rightarrow> clip \<Rightarrow> real \<Rightarrow> real \<Rightarrow> exn + clip" where
  "blurred_clip f c start_time end_time =
     (if start_time = 0 \<and> end_time = duration c then fl_image f c
      else (case subclip c start_time end_time of
              Inl e \<Rightarrow> Inl e
            | Inr sc \<Rightarrow> fl_image f sc))"

text \<open>Lines 167-169: the audio of the source, cut to the window unless \<^verbatim>\<open>end_time\<close> is 0.\<close>

definition add_audio :: "clip \<Rightarrow> clip \<Rightarrow> real \<Rightarrow> real \<Rightarrow> exn + clip" where
  "add_audio c blurred start_time end_time =
     (case audio c of
        None \<Rightarrow> Inr blurred
      | Some au \<Rightarrow>
          if end_time \<noteq> 0 then
            (case audio_subclip au start_time end_time of
               Inl e \<Rightarrow> Inl e
             | Inr au' \<Rightarrow> Inr (blurred\<lparr>audio := Some au'\<rparr>))
          else Inr (blurred\<lparr>audio := Some au\<rparr>))"

text \<open>
  The body of \<^verbatim>\<open>process_video\<close> (lines 136-183), six parameters. The \<^verbatim>\<open>try\<close> of lines
  172-181 logs an exception of \<^verbatim>\<open>write_videofile\<close>; line 183 then returns
  \<^verbatim>\<open>output_path\<close>.
\<close>

definition process_video_body ::
  "lib \<Rightarrow> string \<Rightarrow> roi option \<Rightarrow> string \<Rightarrow> settings \<Rightarrow> real \<Rightarrow> real option \<Rightarrow> state
     \<Rightarrow> (exn + string option) \<times> state" where
  "process_video_body L path roi blur_mode cs start_time end_time st =
     (case VideoFileClip L path st of
        Inl e \<Rightarrow> (Inl e, st)
      | Inr c \<Rightarrow>
          (case blurred_clip (blur_region L roi blur_mode cs) c start_time (default_end_time c end_time) of
             Inl e \<Rightarrow> (Inl e, st)
           | Inr blurred \<Rightarrow>
               (case add_audio c blurred start_time (default_end_time c end_time) of
                  Inl e \<Rightarrow> (Inl e, st)
                | Inr final \<Rightarrow>
                    (case write_videofile (path_join output_directory (basename path)) final st of
                       Inl e \<Rightarrow>
                         (Inr (Some (path_join output_directory (basename path))),
                          logging_error (ErrorWritingVideo e) st)
                     | Inr st' \<Rightarrow> (Inr (Some (path_join output_directory (basename path))), st')))))"

definition bind_process_video ::
  "arg list \<Rightarrow> (string \<times> roi option \<times> string \<times> settings \<times> real \<times> real option) option" where
  "bind_process_video args =
     (case args of
        [PathArg path, RoiArg roi, ModeArg blur_mode, SettingsArg cs,
         StartArg start_time, EndArg end_time] \<Rightarrow>
          Some (path, roi, blur_mode, cs, start_time, end_time)
      | _ \<Rightarrow> None)"

text \<open>The decorated \<^verbatim>\<open>process_video\<close>, as a callable on positional arguments.\<close>

definition process_video :: "lib \<Rightarrow> arg list \<Rightarrow> state \<Rightarrow> string option \<times> state" where
  "process_video L args =
     handle_exceptions (\<lambda>st.
       case bind_process_video args of
         None \<Rightarrow> (Inl TypeError, st)
       | Some (path, roi, blur_mode, cs, start_time, end_time) \<Rightarrow>
           process_video_body L path roi blur_mode cs start_time end_time st)"

subsection \<open>\<^verbatim>\<open>process_media_in_parallel\<close>\<close>

text \<open>Line 201: the test that selects \<^verbatim>\<open>process_image\<close>.\<close>

definition is_image_path :: "string \<Rightarrow> bool" where
  "is_image_path path =
     (endswith (lower path) ''.jpg'' \<or> endswith (lower path) ''.jpeg'' \<or> endswith (lower path) ''.png'')"

text \<open>Lines 198-210: the task submitted for one path, with its six arguments.\<close>

definition submit ::
  "lib \<Rightarrow> roi option \<Rightarrow> string \<Rightarrow> settings \<Rightarrow> real \<Rightarrow> real option \<Rightarrow> string \<Rightarrow> state
     \<Rightarrow> string option \<times> state" where
  "submit L roi blur_mode cs start_time end_time path =
     (if is_image_path path then process_image L else process_video L)
       [PathArg path, RoiArg roi, ModeArg blur_mode, SettingsArg cs, StartArg start_time,
        EndArg end_time]"

text \<open>
  The worker pool. The order in which the tasks complete is not determined by the
  program: it is the parameter \<open>completion\<close>, the positions of \<^verbatim>\<open>media_paths\<close> in the
  order of completion. Each task runs on the state its predecessors in that order left;
  interleavings within tasks are not modelled.
\<close>

fun run_tasks :: "(state \<Rightarrow> string option \<times> state) list \<Rightarrow> state \<Rightarrow> string option list \<times> state" where
  "run_tasks [] st = ([], st)"
| "run_tasks (t # ts) st =
     (case t st of (r, st1) \<Rightarrow> (case run_tasks ts st1 of (rs, st2) \<Rightarrow> (r # rs, st2)))"

definition futures ::
  "lib \<Rightarrow> nat list \<Rightarrow> string list \<Rightarrow> roi option \<Rightarrow> string \<Rightarrow> settings \<Rightarrow> real \<Rightarrow> real option
     \<Rightarrow> state \<Rightarrow> string option list \<times> state" where
  "futures L completion media_paths roi blur_mode cs start_time end_time =
     run_tasks (map (\<lambda>i. submit L roi blur_mode cs start_time end_time (media_paths ! i)) completion)"

text \<open>Lines 213-218: \<^verbatim>\<open>if result:\<close> drops \<^verbatim>\<open>None\<close> and the empty string.\<close>

definition collect :: "string option list \<Rightarrow> string list" where
  "collect results =
     concat (map (\<lambda>result. case result of None \<Rightarrow> [] | Some p \<Rightarrow> if p = [] then [] else [p]) results)"

definition process_media_in_parallel ::
  "lib \<Rightarrow> nat list \<Rightarrow> string list \<Rightarrow> roi option \<Rightarrow> string \<Rightarrow> settings \<Rightarrow> real \<Rightarrow> real option
     \<Rightarrow> state \<Rightarrow> string list \<times> state" where
  "process_media_in_parallel L completion media_paths roi blur_mode cs start_time end_time st =
     (case futures L completion media_paths roi blur_mode cs start_time end_time st of
        (results, st') \<Rightarrow> (collect results, st'))"

subsection \<open>Sample data\<close>

text \<open>
  Concrete inputs for the closed examples. The filters of \<open>sample_lib\<close> return their
  source, as a Gaussian filter with a kernel of one pixel does, and the reported duration
  of a file is the number of its frames over its rate.
\<close>

definition sample_lib :: lib where
  "sample_lib =
     \<lparr>gauss_core = (\<lambda>src ksize sigma. Inr src), pil_gaussian = (\<lambda>src radius. Inr src),
      ffmpeg_duration = (\<lambda>v. real (length (v_frames v)) / v_fps v)\<rparr>"

definition gray :: "byte \<Rightarrow> frame" where
  "gray v = [[(v, v, v)]]"

definition sample_frame :: frame where
  "sample_frame = [[(1, 1, 1), (2, 2, 2)], [(3, 3, 3), (4, 4, 4)]]"

definition sample_memory :: state where
  "sample_memory =
     \<lparr>heap = [\<lparr>writeable = True, pixels = gray 10\<rparr>, \<lparr>writeable = True, pixels = sample_frame\<rparr>],
      errlog = [], files = Map.empty, write_status = (\<lambda>_. Writable)\<rparr>"

definition horizontal :: settings where
  "horizontal = [''direction'' \<mapsto> PyStr ''horizontal'']"

definition sample_video :: video_file where
  "sample_video = \<lparr>v_fps = 1, v_frames = map gray [0, 1, 2, 3, 4, 5, 6, 7, 8, 9], v_audio = None\<rparr>"

definition sample_world :: state where
  "sample_world =
     \<lparr>heap = [], errlog = [],
      files = [''example.jpg'' \<mapsto> Image (gray 10), ''example.mp4'' \<mapsto> Video sample_video],
      write_status = (\<lambda>_. Writable)\<rparr>"

text \<open>The same files where nothing can be written (no output directory).\<close>

definition unwritable_world :: state where
  "unwritable_world = sample_world\<lparr>write_status := (\<lambda>_. Unwritable)\<rparr>"

section \<open>Properties\<close>

subsection \<open>Region validation\<close>

text \<open>The bounds check of the code is the negation of the specification's invariant.\<close>

lemma roi_invalid_iff: "roi_invalid f r = (\<not> within_bounds f r)"
  by (auto simp: roi_invalid_def within_bounds_def split: prod.splits)

lemma rect_row_length: "rect f \<Longrightarrow> i < length f \<Longrightarrow> length (f ! i) = shape1 f"
  by (simp add: rect_def list_all_length)

lemma crop_has_shape:
  assumes "within_bounds f (x, y, w, h)" and "rect f"
  shows "has_shape (crop f (x, y, w, h)) (nat h) (nat w)"
proof -
  from assms(1) have b: "0 \<le> x" "0 \<le> y" "0 < w" "0 < h" "x + w \<le> int (shape1 f)" "y + h \<le> int (length f)"
    by (simp_all add: within_bounds_def shape0_def)
  have len: "length (crop f (x, y, w, h)) = nat h"
    using b by (simp add: crop_def)
  have rows: "length r = nat w" if "r \<in> set (crop f (x, y, w, h))" for r
  proof -
    from that obtain row where row: "row \<in> set f" and r: "r = take (nat w) (drop (nat x) row)"
      by (auto simp: crop_def dest!: in_set_takeD in_set_dropD)
    from row assms(2) have "length row = shape1 f"
      by (simp add: rect_def list_all_iff)
    with b r show ?thesis by simp
  qed
  show ?thesis
    using len rows by (simp add: has_shape_def list_all_iff)
qed

lemma crop_nth:
  assumes "within_bounds f (x, y, w, h)" and "rect f" and "i < nat h" and "j < nat w"
  shows "crop f (x, y, w, h) ! i ! j = f ! (nat y + i) ! (nat x + j)"
proof -
  from assms(1) have b: "0 \<le> x" "0 \<le> y" "0 < w" "0 < h" "x + w \<le> int (shape1 f)" "y + h \<le> int (length f)"
    by (simp_all add: within_bounds_def shape0_def)
  have yi: "nat y + i < length f" using b assms(3) by linarith
  have "length (f ! (nat y + i)) = shape1 f"
    using assms(2) yi by (rule rect_row_length)
  then have xj: "nat x + j < length (f ! (nat y + i))" using b assms(4) by linarith
  have "crop f (x, y, w, h) ! i = take (nat w) (drop (nat x) (f ! (nat y + i)))"
    using b assms(3) yi by (simp add: crop_def)
  then show ?thesis
    using assms(4) xj by simp
qed

lemma apply_blur_invalid_roi:
  "roi_invalid (pixels (heap st ! a)) r \<Longrightarrow>
     apply_blur L (Some a) (Some r) blur_mode cs st = (Some a, st\<lparr>errlog := errlog st @ [InvalidROI]\<rparr>)"
  by (simp add: apply_blur_def handle_exceptions_def apply_blur_body_def roi_section_def logging_error_def)

lemma roi_section_valid:
  "roi = None \<or> (\<exists>r. roi = Some r \<and> within_bounds f r) \<Longrightarrow> \<exists>sect. roi_section f roi = Some sect"
  by (auto simp: roi_section_def roi_invalid_iff)

lemma apply_blur_valid_roi:
  assumes "within_bounds (pixels (heap st ! a)) r"
  shows "apply_blur L (Some a) (Some r) blur_mode cs st
           = (case blur_roi L (crop (pixels (heap st ! a)) r) blur_mode cs of
                Inl e \<Rightarrow> (None, st\<lparr>errlog := errlog st @ [ErrorApplyingBlur e]\<rparr>)
              | Inr None \<Rightarrow> (None, st\<lparr>errlog := errlog st @ [UnknownBlurMode blur_mode]\<rparr>)
              | Inr (Some b) \<Rightarrow>
                  (case setitem_roi a r b st of
                     Inl e \<Rightarrow> (None, st\<lparr>errlog := errlog st @ [ErrorApplyingBlur e]\<rparr>)
                   | Inr st' \<Rightarrow> (Some a, st')))"
  using assms
  by (simp add: apply_blur_def handle_exceptions_def apply_blur_body_def roi_section_def
        roi_invalid_iff update_image_def logging_error_def split: sum.splits option.splits)

text \<open>
  C4. A region that violates a bound (\<open>x < 0\<close>, \<open>y < 0\<close>, \<open>w \<le> 0\<close>, \<open>h \<le> 0\<close>, or one
  that extends past the frame) does not make \<^verbatim>\<open>apply_blur\<close> fail: the call returns the
  caller's array itself, no array of the heap is changed, and the one effect is the log
  record ``Invalid ROI specified''. With a region inside the bounds of the frame
  \<^verbatim>\<open>apply_blur\<close> never takes that path and uses the region as it is: what it filters
  is the section of \<open>h\<close> rows of \<open>w\<close> pixels whose pixel \<open>(i, j)\<close> is the frame's pixel
  \<open>(y + i, x + j)\<close>, its result is that of the filter on this section, and what the
  filter returns is written to the same region \<open>(x, y, w, h)\<close> of the array.
\<close>

theorem invalid_roi_returns_frame_unmodified:
  "(x < 0 \<or> y < 0 \<or> w \<le> 0 \<or> h \<le> 0
      \<or> int (shape1 (pixels (heap st ! a))) < x + w \<or> int (shape0 (pixels (heap st ! a))) < y + h
    \<longrightarrow> apply_blur L (Some a) (Some (x, y, w, h)) blur_mode cs st
          = (Some a, st\<lparr>errlog := errlog st @ [InvalidROI]\<rparr>))
   \<and> (0 \<le> x \<and> 0 \<le> y \<and> 0 < w \<and> 0 < h
        \<and> x + w \<le> int (shape1 (pixels (heap st ! a))) \<and> y + h \<le> int (shape0 (pixels (heap st ! a)))
        \<and> rect (pixels (heap st ! a))
    \<longrightarrow> apply_blur L (Some a) (Some (x, y, w, h)) blur_mode cs st
          = (case blur_roi L (crop (pixels (heap st ! a)) (x, y, w, h)) blur_mode cs of
               Inl e \<Rightarrow> (None, st\<lparr>errlog := errlog st @ [ErrorApplyingBlur e]\<rparr>)
             | Inr None \<Rightarrow> (None, st\<lparr>errlog := errlog st @ [UnknownBlurMode blur_mode]\<rparr>)
             | Inr (Some b) \<Rightarrow>
                 (case setitem_roi a (x, y, w, h) b st of
                    Inl e \<Rightarrow> (None, st\<lparr>errlog := errlog st @ [ErrorApplyingBlur e]\<rparr>)
                  | Inr st' \<Rightarrow> (Some a, st')))
        \<and> has_shape (crop (pixels (heap st ! a)) (x, y, w, h)) (nat h) (nat w)
        \<and> (\<forall>i<nat h. \<forall>j<nat w.
              crop (pixels (heap st ! a)) (x, y, w, h) ! i ! j
                = pixels (heap st ! a) ! (nat y + i) ! (nat x + j)))"
proof (intro conjI impI)
  assume "x < 0 \<or> y < 0 \<or> w \<le> 0 \<or> h \<le> 0
      \<or> int (shape1 (pixels (heap st ! a))) < x + w \<or> int (shape0 (pixels (heap st ! a))) < y + h"
  then have "roi_invalid (pixels (heap st ! a)) (x, y, w, h)"
    by (simp add: roi_invalid_def)
  then show "apply_blur L (Some a) (Some (x, y, w, h)) blur_mode cs st
          = (Some a, st\<lparr>errlog := errlog st @ [InvalidROI]\<rparr>)"
    by (rule apply_blur_invalid_roi)
next
  assume a: "0 \<le> x \<and> 0 \<le> y \<and> 0 < w \<and> 0 < h
        \<and> x + w \<le> int (shape1 (pixels (heap st ! a))) \<and> y + h \<le> int (shape0 (pixels (heap st ! a)))
        \<and> rect (pixels (heap st ! a))"
  then have wb: "within_bounds (pixels (heap st ! a)) (x, y, w, h)" and r: "rect (pixels (heap st ! a))"
    by (simp_all add: within_bounds_def)
  from wb show "apply_blur L (Some a) (Some (x, y, w, h)) blur_mode cs st
          = (case blur_roi L (crop (pixels (heap st ! a)) (x, y, w, h)) blur_mode cs of
               Inl e \<Rightarrow> (None, st\<lparr>errlog := errlog st @ [ErrorApplyingBlur e]\<rparr>)
             | Inr None \<Rightarrow> (None, st\<lparr>errlog := errlog st @ [UnknownBlurMode blur_mode]\<rparr>)
             | Inr (Some b) \<Rightarrow>
                 (case setitem_roi a (x, y, w, h) b st of
                    Inl e \<Rightarrow> (None, st\<lparr>errlog := errlog st @ [ErrorApplyingBlur e]\<rparr>)
                  | Inr st' \<Rightarrow> (Some a, st')))"
    by (rule apply_blur_valid_roi)
  from wb r show "has_shape (crop (pixels (heap st ! a)) (x, y, w, h)) (nat h) (nat w)"
    by (rule crop_has_shape)
  from wb r show "\<forall>i<nat h. \<forall>j<nat w.
              crop (pixels (heap st ! a)) (x, y, w, h) ! i ! j
                = pixels (heap st ! a) ! (nat y + i) ! (nat x + j)"
    by (simp add: crop_nth)
qed

theorem invalid_roi_returns_frame_unmodified_witness:
  "apply_blur sample_lib (Some 1) (Some (1, 0, 2, 1)) ''Motion'' horizontal sample_memory
     = (Some 1, sample_memory\<lparr>errlog := errlog sample_memory @ [InvalidROI]\<rparr>)
   \<and> apply_blur sample_lib (Some 1) (Some (1, 0, 1, 2)) ''Motion'' horizontal sample_memory
       = (case blur_roi sample_lib (crop (pixels (heap sample_memory ! 1)) (1, 0, 1, 2)) ''Motion'' horizontal of
            Inl e \<Rightarrow> (None, sample_memory\<lparr>errlog := errlog sample_memory @ [ErrorApplyingBlur e]\<rparr>)
          | Inr None \<Rightarrow> (None, sample_memory\<lparr>errlog := errlog sample_memory @ [UnknownBlurMode ''Motion'']\<rparr>)
          | Inr (Some b) \<Rightarrow>
              (case setitem_roi 1 (1, 0, 1, 2) b sample_memory of
                 Inl e \<Rightarrow> (None, sample_memory\<lparr>errlog := errlog sample_memory @ [ErrorApplyingBlur e]\<rparr>)
               | Inr st' \<Rightarrow> (Some 1, st')))
   \<and> crop (pixels (heap sample_memory ! 1)) (1, 0, 1, 2) = [[(2, 2, 2)], [(4, 4, 4)]]
   \<and> fst (apply_blur sample_lib (Some 1) (Some (1, 0, 1, 2)) ''Motion'' horizontal sample_memory) = Some 1
   \<and> pixels (heap (snd (apply_blur sample_lib (Some 1) (Some (1, 0, 1, 2)) ''Motion'' horizontal
                          sample_memory)) ! 1)
       = [[(1, 1, 1), (30, 30, 30)], [(3, 3, 3), (60, 60, 60)]]"
proof -
  have past: "int (shape1 (pixels (heap sample_memory ! 1))) < 1 + 2"
    by code_simp
  have inside: "(0::int) \<le> 1 \<and> (0::int) \<le> 0 \<and> (0::int) < 1 \<and> (0::int) < 2
      \<and> 1 + 1 \<le> int (shape1 (pixels (heap sample_memory ! 1)))
      \<and> 0 + 2 \<le> int (shape0 (pixels (heap sample_memory ! 1)))
      \<and> rect (pixels (heap sample_memory ! 1))"
    by code_simp
  have c: "crop (pixels (heap sample_memory ! 1)) (1, 0, 1, 2) = [[(2, 2, 2)], [(4, 4, 4)]]"
    by code_simp
  have f: "fst (apply_blur sample_lib (Some 1) (Some (1, 0, 1, 2)) ''Motion'' horizontal sample_memory) = Some 1"
    by code_simp
  have p: "pixels (heap (snd (apply_blur sample_lib (Some 1) (Some (1, 0, 1, 2)) ''Motion'' horizontal
                          sample_memory)) ! 1)
       = [[(1, 1, 1), (30, 30, 30)], [(3, 3, 3), (60, 60, 60)]]"
    by code_simp
  note t1 = invalid_roi_returns_frame_unmodified
        [where x = 1 and y = 0 and w = 2 and h = 1 and st = sample_memory and a = 1
           and L = sample_lib and blur_mode = "''Motion''" and cs = horizontal]
  note t2 = invalid_roi_returns_frame_unmodified
        [where x = 1 and y = 0 and w = 1 and h = 2 and st = sample_memory and a = 1
           and L = sample_lib and blur_mode = "''Motion''" and cs = horizontal]
  have 1: "apply_blur sample_lib (Some 1) (Some (1, 0, 2, 1)) ''Motion'' horizontal sample_memory
     = (Some 1, sample_memory\<lparr>errlog := errlog sample_memory @ [InvalidROI]\<rparr>)"
    using t1 [THEN conjunct1] past by simp
  from t2 [THEN conjunct2, THEN mp, OF inside, THEN conjunct1] 1 c f p
  show ?thesis
    by (intro conjI)
qed

subsection \<open>Failures of the filter\<close>

lemma blur_roi_unknown_mode:
  "blur_mode \<notin> {''Heavy'', ''Slight'', ''Custom'', ''Motion'', ''Radial''} \<Longrightarrow>
     blur_roi L sect blur_mode cs = Inr None"
  by (simp add: blur_roi_def)

lemma blur_roi_bad_direction:
  assumes "cs ''direction'' \<noteq> Some (PyStr ''horizontal'')" and "cs ''direction'' \<noteq> Some (PyStr ''vertical'')"
  shows "blur_roi L sect ''Motion'' cs =
           Inl (if cs ''direction'' = None then KeyError else UnboundLocalError)"
  using assms by (auto simp: blur_roi_def getitem_def motion_kernel_def split: option.splits)

text \<open>
  C6, as the code has it. The bounds check comes before the choice of the filter, so
  with a mode outside Heavy, Slight, Custom, Motion and Radial: for an absent region or a
  region inside the bounds \<^verbatim>\<open>apply_blur\<close> returns \<^verbatim>\<open>None\<close>, and for a region that
  violates a bound it returns the caller's array. In both cases no array is changed; the
  one effect is a log record.
\<close>

theorem unknown_mode_fails_without_mutation:
  assumes "blur_mode \<notin> {''Heavy'', ''Slight'', ''Custom'', ''Motion'', ''Radial''}"
  shows "(roi = None \<or> (\<exists>r. roi = Some r \<and> within_bounds (pixels (heap st ! a)) r)
            \<longrightarrow> apply_blur L (Some a) roi blur_mode cs st
                  = (None, st\<lparr>errlog := errlog st @ [UnknownBlurMode blur_mode]\<rparr>))
       \<and> (\<forall>r. roi = Some r \<and> \<not> within_bounds (pixels (heap st ! a)) r
            \<longrightarrow> apply_blur L (Some a) roi blur_mode cs st
                  = (Some a, st\<lparr>errlog := errlog st @ [InvalidROI]\<rparr>))"
proof (intro conjI impI allI)
  assume "roi = None \<or> (\<exists>r. roi = Some r \<and> within_bounds (pixels (heap st ! a)) r)"
  then obtain sect where "roi_section (pixels (heap st ! a)) roi = Some sect"
    using roi_section_valid by blast
  then show "apply_blur L (Some a) roi blur_mode cs st
                  = (None, st\<lparr>errlog := errlog st @ [UnknownBlurMode blur_mode]\<rparr>)"
    using blur_roi_unknown_mode [OF assms]
    by (simp add: apply_blur_def handle_exceptions_def apply_blur_body_def logging_error_def)
next
  fix r
  assume "roi = Some r \<and> \<not> within_bounds (pixels (heap st ! a)) r"
  then show "apply_blur L (Some a) roi blur_mode cs st
                  = (Some a, st\<lparr>errlog := errlog st @ [InvalidROI]\<rparr>)"
    by (simp add: apply_blur_invalid_roi roi_invalid_iff)
qed

theorem unknown_mode_fails_without_mutation_witness:
  "''Sepia'' \<notin> {''Heavy'', ''Slight'', ''Custom'', ''Motion'', ''Radial''}
   \<and> within_bounds (pixels (heap sample_memory ! 1)) (0, 1, 2, 1)
   \<and> apply_blur sample_lib (Some 1) (Some (0, 1, 2, 1)) ''Sepia'' Map.empty sample_memory
       = (None, sample_memory\<lparr>errlog := errlog sample_memory @ [UnknownBlurMode ''Sepia'']\<rparr>)
   \<and> \<not> within_bounds (pixels (heap sample_memory ! 1)) (0, 1, 3, 1)
   \<and> apply_blur sample_lib (Some 1) (Some (0, 1, 3, 1)) ''Sepia'' Map.empty sample_memory
       = (Some 1, sample_memory\<lparr>errlog := errlog sample_memory @ [InvalidROI]\<rparr>)"
proof -
  have m: "''Sepia'' \<notin> {''Heavy'', ''Slight'', ''Custom'', ''Motion'', ''Radial''}"
    by simp
  have v: "within_bounds (pixels (heap sample_memory ! 1)) (0, 1, 2, 1)"
    by code_simp
  have i: "\<not> within_bounds (pixels (heap sample_memory ! 1)) (0, 1, 3, 1)"
    by code_simp
  show ?thesis
    using m v i
      unknown_mode_fails_without_mutation [OF m, of "Some (0, 1, 2, 1)" sample_memory 1 sample_lib Map.empty]
      unknown_mode_fails_without_mutation [OF m, of "Some (0, 1, 3, 1)" sample_memory 1 sample_lib Map.empty]
    by simp
qed

text \<open>
  C6 as stated fails: with an unknown mode and a region that starts left of the frame
  the call returns the frame, not \<^verbatim>\<open>None\<close>.
\<close>

theorem unknown_mode_invalid_roi_counterexample:
  "''Sepia'' \<notin> {''Heavy'', ''Slight'', ''Custom'', ''Motion'', ''Radial''}
   \<and> fst (apply_blur sample_lib (Some 0) (Some (- 1, 0, 1, 1)) ''Sepia'' Map.empty sample_memory) = Some 0"
  by code_simp

text \<open>
  C10. In Motion mode with an absent or valid region, a direction that is neither
  \<^verbatim>\<open>"horizontal"\<close> nor \<^verbatim>\<open>"vertical"\<close> leaves \<^verbatim>\<open>kernel\<close> unbound; the
  \<^verbatim>\<open>UnboundLocalError\<close> (or the \<^verbatim>\<open>KeyError\<close> of a missing key) is caught by the
  \<^verbatim>\<open>except\<close> of \<^verbatim>\<open>apply_blur\<close> itself: its body returns \<^verbatim>\<open>None\<close> and raises
  nothing, and no array of the heap is changed.
\<close>

theorem motion_bad_direction_fails:
  assumes "roi = None \<or> (\<exists>r. roi = Some r \<and> within_bounds (pixels (heap st ! a)) r)"
      and "cs ''direction'' \<noteq> Some (PyStr ''horizontal'')"
      and "cs ''direction'' \<noteq> Some (PyStr ''vertical'')"
  shows "apply_blur_body L (Some a) roi ''Motion'' cs st
           = (Inr None, st\<lparr>errlog := errlog st @
                [ErrorApplyingBlur (if cs ''direction'' = None then KeyError else UnboundLocalError)]\<rparr>)
       \<and> apply_blur L (Some a) roi ''Motion'' cs st
           = (None, st\<lparr>errlog := errlog st @
                [ErrorApplyingBlur (if cs ''direction'' = None then KeyError else UnboundLocalError)]\<rparr>)"
proof -
  from assms(1) obtain sect where "roi_section (pixels (heap st ! a)) roi = Some sect"
    using roi_section_valid by blast
  then show ?thesis
    using blur_roi_bad_direction [of cs, OF assms(2,3)]
    by (simp add: apply_blur_def handle_exceptions_def apply_blur_body_def logging_error_def)
qed

theorem motion_bad_direction_fails_witness:
  "within_bounds (pixels (heap sample_memory ! 1)) (0, 1, 2, 1)
   \<and> apply_blur sample_lib (Some 1) (Some (0, 1, 2, 1)) ''Motion'' [''direction'' \<mapsto> PyStr ''diagonal''] sample_memory
       = (None, sample_memory\<lparr>errlog := errlog sample_memory @ [ErrorApplyingBlur UnboundLocalError]\<rparr>)"
proof -
  have v: "within_bounds (pixels (heap sample_memory ! 1)) (0, 1, 2, 1)"
    by code_simp
  from motion_bad_direction_fails
         [of "Some (0, 1, 2, 1)" sample_memory 1 "[''direction'' \<mapsto> PyStr ''diagonal'']" sample_lib]
  show ?thesis using v by simp
qed

subsection \<open>The effect of \<^verbatim>\<open>apply_blur\<close> on the caller's array\<close>

lemma splice_length:
  "X + W \<le> length row \<Longrightarrow> length br = W \<Longrightarrow> length (take X row @ br @ drop (X + W) row) = length row"
  by simp

lemma splice_nth:
  assumes "X + W \<le> length row" and "length br = W" and "j < length row"
  shows "(take X row @ br @ drop (X + W) row) ! j
           = (if X \<le> j \<and> j < X + W then br ! (j - X) else row ! j)"
proof -
  have l1: "length (take X row) = X"
    using assms(1) by simp
  consider "j < X" | "X \<le> j" "j < X + W" | "X + W \<le> j" by linarith
  then show ?thesis
  proof cases
    case 1
    then have "(take X row @ br @ drop (X + W) row) ! j = take X row ! j"
      using l1 by (simp add: nth_append_left)
    with 1 show ?thesis by simp
  next
    case 2
    then have "(take X row @ br @ drop (X + W) row) ! j = (br @ drop (X + W) row) ! (j - X)"
      using l1 by (simp add: nth_append_right)
    also have "\<dots> = br ! (j - X)"
      using 2 assms(2) by (intro nth_append_left) linarith
    finally show ?thesis using 2 by simp
  next
    case 3
    then have "(take X row @ br @ drop (X + W) row) ! j = (br @ drop (X + W) row) ! (j - X)"
      using l1 by (simp add: nth_append_right)
    also have "\<dots> = drop (X + W) row ! (j - X - W)"
      using 3 assms(2) by (simp add: nth_append_right)
    also have "\<dots> = row ! j"
      using 3 assms by simp
    finally show ?thesis using 3 by simp
  qed
qed

lemma paste_length:
  assumes "within_bounds f (x, y, w, h)" and "length b = nat h"
  shows "length (paste f (x, y, w, h) b) = length f"
proof -
  from assms(1) have "0 \<le> y" "0 < h" "y + h \<le> int (length f)"
    by (simp_all add: within_bounds_def shape0_def)
  then show ?thesis
    using assms(2) by (simp add: paste_def nat_add_distrib)
qed

lemma paste_row:
  assumes "within_bounds f (x, y, w, h)" and "length b = nat h" and "i < length f"
  shows "paste f (x, y, w, h) b ! i
           = (if nat y \<le> i \<and> i < nat y + nat h
              then take (nat x) (f ! i) @ b ! (i - nat y) @ drop (nat x + nat w) (f ! i)
              else f ! i)"
proof -
  from assms(1) have b: "0 \<le> x" "0 < w" "0 \<le> y" "0 < h" "y + h \<le> int (length f)"
    by (simp_all add: within_bounds_def shape0_def)
  then have yh: "nat y + nat h \<le> length f" by linarith
  have n: "nat (y + h) = nat y + nat h" "nat (x + w) = nat x + nat w"
    using b by (simp_all add: nat_add_distrib)
  let ?mid = "map (\<lambda>(row, brow). take (nat x) row @ brow @ drop (nat x + nat w) row)
                  (zip (take (nat h) (drop (nat y) f)) b)"
  have lt: "length (take (nat y) f) = nat y"
    using yh by simp
  have lm: "length ?mid = nat h"
    using yh assms(2) by simp
  have p: "paste f (x, y, w, h) b = take (nat y) f @ ?mid @ drop (nat y + nat h) f"
    by (simp add: paste_def n)
  consider "i < nat y" | "nat y \<le> i" "i < nat y + nat h" | "nat y + nat h \<le> i" by linarith
  then show ?thesis
  proof cases
    case 1
    then have "paste f (x, y, w, h) b ! i = take (nat y) f ! i"
      unfolding p using lt by (simp add: nth_append_left)
    with 1 show ?thesis by simp
  next
    case 2
    then have k: "i - nat y < nat h" by linarith
    have "paste f (x, y, w, h) b ! i = (?mid @ drop (nat y + nat h) f) ! (i - nat y)"
      unfolding p using 2 lt by (simp add: nth_append_right)
    also have "\<dots> = ?mid ! (i - nat y)"
      using k lm by (intro nth_append_left) simp
    also have "\<dots> = take (nat x) (f ! i) @ b ! (i - nat y) @ drop (nat x + nat w) (f ! i)"
    proof -
      have z: "i - nat y < length (zip (take (nat h) (drop (nat y) f)) b)"
        using k yh assms(2) by simp
      have "nat y + (i - nat y) = i"
        using 2 by simp
      then have "take (nat h) (drop (nat y) f) ! (i - nat y) = f ! i"
        using k yh by simp
      then have e: "zip (take (nat h) (drop (nat y) f)) b ! (i - nat y) = (f ! i, b ! (i - nat y))"
        using z by simp
      have "?mid ! (i - nat y)
              = (\<lambda>(row, brow). take (nat x) row @ brow @ drop (nat x + nat w) row)
                  (zip (take (nat h) (drop (nat y) f)) b ! (i - nat y))"
        using z by (rule nth_map)
      also have "\<dots> = take (nat x) (f ! i) @ b ! (i - nat y) @ drop (nat x + nat w) (f ! i)"
        unfolding e by simp
      finally show ?thesis .
    qed
    finally show ?thesis using 2 by simp
  next
    case 3
    have "paste f (x, y, w, h) b ! i = (?mid @ drop (nat y + nat h) f) ! (i - nat y)"
      unfolding p using 3 lt by (simp add: nth_append_right)
    also have "\<dots> = drop (nat y + nat h) f ! (i - nat y - nat h)"
    proof -
      have "length ?mid \<le> i - nat y"
        using 3 lm by linarith
      then have "(?mid @ drop (nat y + nat h) f) ! (i - nat y)
                   = drop (nat y + nat h) f ! (i - nat y - length ?mid)"
        by (rule nth_append_right)
      then show ?thesis
        by (simp only: lm)
    qed
    also have "\<dots> = f ! i"
      using 3 assms(3) by simp
    finally show ?thesis using 3 by simp
  qed
qed

lemma paste_pixel:
  assumes wb: "within_bounds f (x, y, w, h)" and r: "rect f" and hs: "has_shape b (nat h) (nat w)"
      and i: "i < length f" and j: "j < length (f ! i)"
  shows "length (paste f (x, y, w, h) b ! i) = length (f ! i)"
    and "paste f (x, y, w, h) b ! i ! j
           = (if nat y \<le> i \<and> i < nat y + nat h \<and> nat x \<le> j \<and> j < nat x + nat w
              then b ! (i - nat y) ! (j - nat x) else f ! i ! j)"
proof -
  from wb have b: "0 \<le> x" "0 < w" "x + w \<le> int (shape1 f)"
    by (simp_all add: within_bounds_def)
  from hs have lb: "length b = nat h" and rows: "\<And>k. k < nat h \<Longrightarrow> length (b ! k) = nat w"
    by (simp_all add: has_shape_def list_all_length)
  have li: "length (f ! i) = shape1 f"
    using r i by (rule rect_row_length)
  then have fit: "nat x + nat w \<le> length (f ! i)"
    using b by linarith
  note row = paste_row [OF wb lb i]
  show "length (paste f (x, y, w, h) b ! i) = length (f ! i)"
  proof (cases "nat y \<le> i \<and> i < nat y + nat h")
    case True
    then have "i - nat y < nat h" by linarith
    then have "length (b ! (i - nat y)) = nat w" by (rule rows)
    with True fit show ?thesis by (simp add: row)
  next
    case False
    then show ?thesis by (auto simp: row)
  qed
  show "paste f (x, y, w, h) b ! i ! j
           = (if nat y \<le> i \<and> i < nat y + nat h \<and> nat x \<le> j \<and> j < nat x + nat w
              then b ! (i - nat y) ! (j - nat x) else f ! i ! j)"
  proof (cases "nat y \<le> i \<and> i < nat y + nat h")
    case True
    then have "i - nat y < nat h" by linarith
    then have "length (b ! (i - nat y)) = nat w" by (rule rows)
    from splice_nth [OF fit this j] True show ?thesis by (simp add: row)
  next
    case False
    then show ?thesis by (auto simp: row)
  qed
qed

lemma apply_blur_Some_whole:
  assumes "apply_blur L (Some a) None blur_mode cs st = (Some q, st')"
  shows "\<exists>b. blur_roi L (pixels (heap st ! a)) blur_mode cs = Inr (Some b)
            \<and> q = length (heap st)
            \<and> st' = st\<lparr>heap := heap st @ [\<lparr>writeable = True, pixels = b\<rparr>]\<rparr>"
  using assms
  by (auto simp: apply_blur_def handle_exceptions_def apply_blur_body_def roi_section_def
        update_image_def alloc_def logging_error_def split: sum.splits option.splits)

lemma apply_blur_Some_roi:
  assumes "within_bounds (pixels (heap st ! a)) (x, y, w, h)"
      and "apply_blur L (Some a) (Some (x, y, w, h)) blur_mode cs st = (Some q, st')"
  shows "\<exists>b. blur_roi L (crop (pixels (heap st ! a)) (x, y, w, h)) blur_mode cs = Inr (Some b)
            \<and> has_shape b (nat h) (nat w) \<and> writeable (heap st ! a) \<and> q = a
            \<and> st' = st\<lparr>heap := (heap st)[a := (heap st ! a)\<lparr>pixels := paste (pixels (heap st ! a)) (x, y, w, h) b\<rparr>]\<rparr>"
  using assms
  by (auto simp: apply_blur_def handle_exceptions_def apply_blur_body_def roi_section_def
        roi_invalid_iff update_image_def setitem_roi_def logging_error_def
        split: sum.splits option.splits if_splits)

text \<open>
  C2, as the code has it. Let a call of \<^verbatim>\<open>apply_blur\<close> on the caller's array \<open>a\<close>
  succeed. Without a region it returns a new array, the filtered image, and every array
  that existed before, the caller's included, is unchanged. With a region inside the
  bounds it returns the caller's own array, overwritten in place (line 105): inside the
  rectangle its pixels are those of the filtered copy of the section, outside it they are
  as before; the shape of the array and all other arrays are unchanged.
\<close>

theorem apply_blur_effect_on_caller_buffer:
  assumes "a < length (heap st)" and "rect (pixels (heap st ! a))"
      and "apply_blur L (Some a) roi blur_mode cs st = (Some q, st')"
  shows "(roi = None \<longrightarrow>
            q = length (heap st) \<and> q \<noteq> a
            \<and> (\<forall>a'<length (heap st). heap st' ! a' = heap st ! a')
            \<and> blur_roi L (pixels (heap st ! a)) blur_mode cs = Inr (Some (pixels (heap st' ! q))))
       \<and> (\<forall>x y w h. roi = Some (x, y, w, h) \<and> within_bounds (pixels (heap st ! a)) (x, y, w, h) \<longrightarrow>
            q = a \<and> length (heap st') = length (heap st)
            \<and> (\<forall>a'. a' \<noteq> a \<longrightarrow> heap st' ! a' = heap st ! a')
            \<and> length (pixels (heap st' ! a)) = length (pixels (heap st ! a))
            \<and> (\<exists>b. blur_roi L (crop (pixels (heap st ! a)) (x, y, w, h)) blur_mode cs = Inr (Some b)
                 \<and> (\<forall>i<length (pixels (heap st ! a)). \<forall>j<length (pixels (heap st ! a) ! i).
                       length (pixels (heap st' ! a) ! i) = length (pixels (heap st ! a) ! i)
                       \<and> pixels (heap st' ! a) ! i ! j
                           = (if nat y \<le> i \<and> i < nat y + nat h \<and> nat x \<le> j \<and> j < nat x + nat w
                              then b ! (i - nat y) ! (j - nat x)
                              else pixels (heap st ! a) ! i ! j))))"
proof -
  have whole: "q = length (heap st) \<and> q \<noteq> a
            \<and> (\<forall>a'<length (heap st). heap st' ! a' = heap st ! a')
            \<and> blur_roi L (pixels (heap st ! a)) blur_mode cs = Inr (Some (pixels (heap st' ! q)))"
    if "roi = None"
  proof -
    from that assms(3) obtain b where b: "blur_roi L (pixels (heap st ! a)) blur_mode cs = Inr (Some b)"
      and q: "q = length (heap st)"
      and st': "st' = st\<lparr>heap := heap st @ [\<lparr>writeable = True, pixels = b\<rparr>]\<rparr>"
      using apply_blur_Some_whole by blast
    show ?thesis
      using assms(1) by (simp add: b q st' nth_append)
  qed
  have region: "q = a \<and> length (heap st') = length (heap st)
            \<and> (\<forall>a'. a' \<noteq> a \<longrightarrow> heap st' ! a' = heap st ! a')
            \<and> length (pixels (heap st' ! a)) = length (pixels (heap st ! a))
            \<and> (\<exists>b. blur_roi L (crop (pixels (heap st ! a)) (x, y, w, h)) blur_mode cs = Inr (Some b)
                 \<and> (\<forall>i<length (pixels (heap st ! a)). \<forall>j<length (pixels (heap st ! a) ! i).
                       length (pixels (heap st' ! a) ! i) = length (pixels (heap st ! a) ! i)
                       \<and> pixels (heap st' ! a) ! i ! j
                           = (if nat y \<le> i \<and> i < nat y + nat h \<and> nat x \<le> j \<and> j < nat x + nat w
                              then b ! (i - nat y) ! (j - nat x)
                              else pixels (heap st ! a) ! i ! j)))"
    if roi: "roi = Some (x, y, w, h)" and wb: "within_bounds (pixels (heap st ! a)) (x, y, w, h)"
    for x y w h
  proof -
    from apply_blur_Some_roi [OF wb assms(3) [unfolded roi]]
    obtain b where b: "blur_roi L (crop (pixels (heap st ! a)) (x, y, w, h)) blur_mode cs = Inr (Some b)"
      and hs: "has_shape b (nat h) (nat w)" and q: "q = a"
      and st': "st' = st\<lparr>heap := (heap st)[a := (heap st ! a)\<lparr>pixels := paste (pixels (heap st ! a)) (x, y, w, h) b\<rparr>]\<rparr>"
      by blast
    have px: "pixels (heap st' ! a) = paste (pixels (heap st ! a)) (x, y, w, h) b"
      using assms(1) by (simp add: st')
    from hs have lb: "length b = nat h"
      by (simp add: has_shape_def)
    have 1: "length (heap st') = length (heap st)"
      by (simp add: st')
    have 2: "\<forall>a'. a' \<noteq> a \<longrightarrow> heap st' ! a' = heap st ! a'"
      by (simp add: st')
    have 3: "length (pixels (heap st' ! a)) = length (pixels (heap st ! a))"
      unfolding px using wb lb by (rule paste_length)
    have 4: "\<forall>i<length (pixels (heap st ! a)). \<forall>j<length (pixels (heap st ! a) ! i).
                       length (pixels (heap st' ! a) ! i) = length (pixels (heap st ! a) ! i)
                       \<and> pixels (heap st' ! a) ! i ! j
                           = (if nat y \<le> i \<and> i < nat y + nat h \<and> nat x \<le> j \<and> j < nat x + nat w
                              then b ! (i - nat y) ! (j - nat x)
                              else pixels (heap st ! a) ! i ! j)"
      unfolding px using paste_pixel [OF wb assms(2) hs] by blast
    from q 1 2 3 b 4 show ?thesis by blast
  qed
  from whole region show ?thesis by blast
qed

theorem apply_blur_effect_on_caller_buffer_witness:
  "1 < length (heap sample_memory) \<and> rect (pixels (heap sample_memory ! 1))
   \<and> within_bounds (pixels (heap sample_memory ! 1)) (1, 0, 1, 2)
   \<and> fst (apply_blur sample_lib (Some 1) (Some (1, 0, 1, 2)) ''Motion'' horizontal sample_memory) = Some 1
   \<and> length (heap (snd (apply_blur sample_lib (Some 1) (Some (1, 0, 1, 2)) ''Motion'' horizontal sample_memory)))
       = length (heap sample_memory)
   \<and> heap (snd (apply_blur sample_lib (Some 1) (Some (1, 0, 1, 2)) ''Motion'' horizontal sample_memory)) ! 0
       = heap sample_memory ! 0"
proof -
  let ?r = "apply_blur sample_lib (Some 1) (Some (1, 0, 1, 2)) ''Motion'' horizontal sample_memory"
  have h1: "1 < length (heap sample_memory)"
    by code_simp
  have h2: "rect (pixels (heap sample_memory ! 1))"
    by code_simp
  have wb: "within_bounds (pixels (heap sample_memory ! 1)) (1, 0, 1, 2)"
    by code_simp
  have h3: "fst ?r = Some 1"
    by code_simp
  then have h3': "?r = (Some 1, snd ?r)"
    by (metis prod.collapse)
  from apply_blur_effect_on_caller_buffer [OF h1 h2 h3'] wb
  have "length (heap (snd ?r)) = length (heap sample_memory)
        \<and> (\<forall>a'. a' \<noteq> 1 \<longrightarrow> heap (snd ?r) ! a' = heap sample_memory ! a')"
    by blast
  then show ?thesis
    using h1 h2 wb h3 by simp
qed

text \<open>
  C2 as stated fails: after a successful Motion blur of the region \<open>(0, 0, 1, 1)\<close> the
  caller's array, which held the value 10, holds 150.
\<close>

theorem roi_blur_overwrites_caller_buffer_counterexample:
  "within_bounds (pixels (heap sample_memory ! 0)) (0, 0, 1, 1)
   \<and> fst (apply_blur sample_lib (Some 0) (Some (0, 0, 1, 1)) ''Motion'' horizontal sample_memory) = Some 0
   \<and> pixels (heap sample_memory ! 0) = gray 10
   \<and> pixels (heap (snd (apply_blur sample_lib (Some 0) (Some (0, 0, 1, 1)) ''Motion'' horizontal sample_memory)) ! 0)
       = gray 150"
  by code_simp

subsection \<open>The Motion kernel\<close>

text \<open>
  C9. The kernel that \<^verbatim>\<open>apply_blur\<close> hands to \<^verbatim>\<open>cv2.filter2D\<close> in Motion mode is a
  row or a column of fifteen ones; it is not divided by 15. On a frame whose pixels all
  have the value 10, whose averages are 10 again, the code returns 150 everywhere, for
  both directions; on the value 100 it returns the saturated 255.
\<close>

theorem motion_blur_sums_instead_of_averaging:
  "fst (apply_blur sample_lib (Some 0) None ''Motion'' horizontal (frame_state [replicate 15 (10, 10, 10)])) = Some 1
   \<and> pixels (heap (snd (apply_blur sample_lib (Some 0) None ''Motion'' horizontal
                          (frame_state [replicate 15 (10, 10, 10)]))) ! 1)
       = [replicate 15 (150, 150, 150)]
   \<and> pixels (heap (snd (apply_blur sample_lib (Some 0) None ''Motion'' [''direction'' \<mapsto> PyStr ''vertical'']
                          (frame_state (replicate 15 [(10, 10, 10)])))) ! 1)
       = replicate 15 [(150, 150, 150)]
   \<and> pixels (heap (snd (apply_blur sample_lib (Some 0) None ''Motion'' horizontal
                          (frame_state (gray 100)))) ! 1)
       = gray 255"
  by code_simp

subsection \<open>The kernel size of Custom mode\<close>









subsection \<open>The dispatcher and its tasks\<close>


text \<open>
  C1. The path \<^verbatim>\<open>example.jpg\<close> has an image extension and holds a decodable image.
  Called with its four arguments, \<^verbatim>\<open>process_image\<close> succeeds on it and returns the
  path. The batch of this one path returns the empty sequence, and the log holds the
  \<^verbatim>\<open>TypeError\<close> of the call with six arguments.
\<close>

theorem image_item_dropped_by_dispatcher:
  "is_image_path ''example.jpg''
   \<and> files sample_world ''example.jpg'' = Some (Image (gray 10))
   \<and> fst (process_image sample_lib
             [PathArg ''example.jpg'', RoiArg None, ModeArg ''Heavy'', SettingsArg Map.empty] sample_world)
       = Some ''example.jpg''
   \<and> fst (process_media_in_parallel sample_lib [0] [''example.jpg''] None ''Heavy'' Map.empty 0 None
             sample_world) = []
   \<and> errlog (snd (process_media_in_parallel sample_lib [0] [''example.jpg''] None ''Heavy'' Map.empty 0 None
             sample_world)) = [ErrorProcessing TypeError]"
  by code_simp

text \<open>
  C3. Where the output file cannot be written, \<^verbatim>\<open>write_videofile\<close> raises; the
  \<^verbatim>\<open>except\<close> of lines 180-181 logs the error, and line 183 returns \<^verbatim>\<open>output_path\<close>
  all the same. No file exists at that path afterwards, and the batch result reports it.
\<close>

theorem failed_video_write_reported_as_success:
  "write_status unwritable_world ''output/example.mp4'' = Unwritable
   \<and> fst (process_video sample_lib
             [PathArg ''example.mp4'', RoiArg None, ModeArg ''Heavy'', SettingsArg Map.empty,
              StartArg 0, EndArg None] unwritable_world)
       = Some ''output/example.mp4''
   \<and> errlog (snd (process_video sample_lib
             [PathArg ''example.mp4'', RoiArg None, ModeArg ''Heavy'', SettingsArg Map.empty,
              StartArg 0, EndArg None] unwritable_world))
       = [ErrorWritingVideo IOError]
   \<and> files (snd (process_video sample_lib
             [PathArg ''example.mp4'', RoiArg None, ModeArg ''Heavy'', SettingsArg Map.empty,
              StartArg 0, EndArg None] unwritable_world)) ''output/example.mp4''
       = None
   \<and> fst (process_media_in_parallel sample_lib [0] [''example.mp4''] None ''Heavy'' Map.empty 0 None
             unwritable_world) = [''output/example.mp4'']"
  by code_simp










subsection \<open>The time window of \<^verbatim>\<open>process_video\<close>\<close>














end
